theory Spec2Isabelle
  imports Main "HOL-Library.Sublist" "HOL-Library.Multiset"
begin

section \<open>Strings\<close>

text \<open>
  Strings are \<^typ>\<open>string\<close>, read as the UTF-8 bytes of the Python text. Python's
  substring test \<^verbatim>\<open>k in s\<close> is \<^const>\<open>sublist\<close> (a contiguous run), and
  \<^verbatim>\<open>s.startswith(k)\<close> is \<^const>\<open>prefix\<close>. Every keyword the program searches for is
  ASCII, so the byte-level test agrees with the one on code points.
\<close>

text \<open>
  \<^verbatim>\<open>str.lower()\<close>, \<^verbatim>\<open>str.upper()\<close> and \<^verbatim>\<open>str.strip()\<close> are built into Python and follow the
  Unicode character tables, which are no part of the program. They are a parameter of
  the model: every function that calls one of them takes the three as its first
  argument, and what is proved of it holds for whatever they are.
\<close>

record py_str =
  lower :: "string \<Rightarrow> string"
  upper :: "string \<Rightarrow> string"
  strip :: "string \<Rightarrow> string"

text \<open>
  For the concrete examples, the three on ASCII text, where Python's agree with them:
  the letters A to Z and a to z are mapped, the ASCII white space is stripped, and every
  other byte is left as it is, as Python leaves a character without case such as the
  rupee sign.
\<close>

definition lower_char :: "char \<Rightarrow> char" where
  "lower_char c =
     (let n = (of_char c :: nat) in if 65 \<le> n \<and> n \<le> 90 then char_of (n + 32) else c)"

definition upper_char :: "char \<Rightarrow> char" where
  "upper_char c =
     (let n = (of_char c :: nat) in if 97 \<le> n \<and> n \<le> 122 then char_of (n - 32) else c)"

definition ascii_lower :: "string \<Rightarrow> string" where
  "ascii_lower s = map lower_char s"

definition ascii_upper :: "string \<Rightarrow> string" where
  "ascii_upper s = map upper_char s"

definition is_space :: "char \<Rightarrow> bool" where
  "is_space c =
     (let n = (of_char c :: nat) in (9 \<le> n \<and> n \<le> 13) \<or> (28 \<le> n \<and> n \<le> 32))"

definition ascii_strip :: "string \<Rightarrow> string" where
  "ascii_strip s = rev (dropWhile is_space (rev (dropWhile is_space s)))"

definition ascii :: py_str where
  "ascii = \<lparr>lower = ascii_lower, upper = ascii_upper, strip = ascii_strip\<rparr>"

text \<open>\<^verbatim>\<open>sep.join(xs)\<close>\<close>

fun join :: "string \<Rightarrow> string list \<Rightarrow> string" where
  "join sep [] = []"
| "join sep [x] = x"
| "join sep (x # y # ys) = x @ sep @ join sep (y # ys)"

text \<open>
  Truthiness of the value \<^verbatim>\<open>d.get(k)\<close> returns: \<open>None\<close> (key absent), the number 0 and
  the empty string are false.
\<close>

definition truthy_int :: "int option \<Rightarrow> bool" where
  "truthy_int v = (case v of None \<Rightarrow> False | Some n \<Rightarrow> n \<noteq> 0)"

definition truthy_str :: "string option \<Rightarrow> bool" where
  "truthy_str v = (case v of None \<Rightarrow> False | Some s \<Rightarrow> s \<noteq> [])"

text \<open>\<^verbatim>\<open>d.get(k, '')\<close> on a string field\<close>

definition get_str :: "string option \<Rightarrow> string" where
  "get_str v = (case v of None \<Rightarrow> [] | Some s \<Rightarrow> s)"

section \<open>Data model\<close>

text \<open>
  A card is the dictionary \<^verbatim>\<open>json.load\<close> gives for one catalog entry. A field the code
  reads with \<^verbatim>\<open>.get\<close> is an option, \<open>None\<close> when the key is absent; a list field read
  with the default \<^verbatim>\<open>[]\<close> is the list, empty when the key is absent.
\<close>

record income_req =
  salaried :: "int option"
  self_employed :: "int option"
  Any :: "int option"

text \<open>
  \<^verbatim>\<open>rewards\<close> and \<^verbatim>\<open>fee_breakdown\<close> come in two shapes: a list, or a dictionary holding
  the list under the same key (\<open>AsDict None\<close> when the inner key is absent). Anything
  else counts as empty.
\<close>

datatype 'a dual = AsList "'a list" | AsDict "'a list option" | AsOther

fun unwrap :: "'a dual \<Rightarrow> 'a list" where
  "unwrap (AsList xs) = xs"
| "unwrap (AsDict None) = []"
| "unwrap (AsDict (Some xs)) = xs"
| "unwrap AsOther = []"

text \<open>
  The scorer reads a reward descriptor only through \<^verbatim>\<open>str(reward)\<close>, so a descriptor is
  represented by that text: a free-text reward is itself, a structured one is its
  \<^verbatim>\<open>repr\<close>. A fee descriptor that is a dictionary has its \<^verbatim>\<open>type\<close>, its \<^verbatim>\<open>details\<close> and its
  \<^verbatim>\<open>str\<close> text; one that is not a dictionary has only the text.
\<close>

datatype reward = Reward (reward_str: string)

datatype fee =
    FeeDict (fee_type: "string option") (fee_details: "string list") (fee_str: string)
  | FeeOther (fee_str: string)

record card =
  name :: "string option"
  Institution :: "string option"
  badge :: "string list"
  eligibility_income_min :: income_req
  minimum_credit_score :: "int option"
  is_bank_customer_only :: bool
  rewards :: "reward dual"
  fee_breakdown :: "fee dual"
  interest_rate :: "string option"
  links :: "(string \<times> string) list"

record user_preferences =
  employment :: "string option"
  income :: "int option"
  categories :: "string list"
  preferences :: "string list"
  preferred_bank :: "string option"
  credit_score :: "int option"

section \<open>Eligibility filter\<close>

text \<open>The three checks of \<^verbatim>\<open>filter_cards_by_eligibility\<close>, in the order of the source.\<close>

definition user_income :: "user_preferences \<Rightarrow> int" where
  "user_income p = (case income p of None \<Rightarrow> 0 | Some i \<Rightarrow> i)"

definition income_eligible :: "user_preferences \<Rightarrow> card \<Rightarrow> bool" where
  "income_eligible p c =
     (let req = eligibility_income_min c in
      if employment p = Some ''salaried'' \<and> truthy_int (salaried req)
        then (case salaried req of Some m \<Rightarrow> m \<le> user_income p | None \<Rightarrow> True)
      else if employment p = Some ''self-employed'' \<and> truthy_int (self_employed req)
        then (case self_employed req of Some m \<Rightarrow> m \<le> user_income p | None \<Rightarrow> True)
      else if truthy_int (Any req)
        then (case Any req of Some m \<Rightarrow> m \<le> user_income p | None \<Rightarrow> True)
      else True)"

definition credit_eligible :: "user_preferences \<Rightarrow> card \<Rightarrow> bool" where
  "credit_eligible p c =
     (if truthy_int (credit_score p) \<and> truthy_int (minimum_credit_score c)
        then (case (credit_score p, minimum_credit_score c) of
                (Some s, Some m) \<Rightarrow> m \<le> s | _ \<Rightarrow> True)
      else True)"

definition bank_eligible :: "py_str \<Rightarrow> user_preferences \<Rightarrow> card \<Rightarrow> bool" where
  "bank_eligible py p c =
     (if is_bank_customer_only c \<and> truthy_str (preferred_bank p)
        then sublist (upper py (get_str (preferred_bank p))) (upper py (get_str (Institution c)))
      else if is_bank_customer_only c \<and> \<not> truthy_str (preferred_bank p)
        then False
      else True)"

text \<open>
  The loop over \<^verbatim>\<open>self.cards\<close>. The excluded institutions are the values
  \<^verbatim>\<open>card.get('Institution')\<close> returned when they were appended.
\<close>

fun filter_cards_by_eligibility ::
  "py_str \<Rightarrow> card list \<Rightarrow> user_preferences \<Rightarrow> string option list \<Rightarrow> card list" where
  "filter_cards_by_eligibility py [] p excluded = []"
| "filter_cards_by_eligibility py (c # cs) p excluded =
     (if Institution c \<in> set excluded
        then filter_cards_by_eligibility py cs p excluded
      else if income_eligible p c \<and> credit_eligible p c \<and> bank_eligible py p c
        then c # filter_cards_by_eligibility py cs p excluded
      else filter_cards_by_eligibility py cs p excluded)"

section \<open>Preference scorer\<close>

text \<open>The lower-cased badges and user categories of \<^verbatim>\<open>score_cards\<close>.\<close>

definition card_badges :: "py_str \<Rightarrow> card \<Rightarrow> string list" where
  "card_badges py c = map (lower py) (badge c)"

definition user_categories :: "py_str \<Rightarrow> user_preferences \<Rightarrow> string list" where
  "user_categories py p = map (lower py) (categories p)"

text \<open>\<^verbatim>\<open>sum(1 for cat in user_categories if cat in card_badges)\<close>\<close>

definition exact_matches :: "py_str \<Rightarrow> user_preferences \<Rightarrow> card \<Rightarrow> int" where
  "exact_matches py p c =
     int (length (filter (\<lambda>cat. cat \<in> set (card_badges py c)) (user_categories py p)))"

text \<open>The inner loop over the badges, which stops at the first badge that matches.\<close>

fun badge_loop :: "string \<Rightarrow> string list \<Rightarrow> bool" where
  "badge_loop user_cat [] = False"
| "badge_loop user_cat (card_badge # bs) =
     (if sublist user_cat card_badge \<or> sublist card_badge user_cat then True
      else badge_loop user_cat bs)"

text \<open>The outer loop over the user categories, counting in \<^verbatim>\<open>partial_matches\<close>.\<close>

fun category_loop :: "string list \<Rightarrow> string list \<Rightarrow> int \<Rightarrow> int" where
  "category_loop [] bs partial = partial"
| "category_loop (user_cat # ucs) bs partial =
     category_loop ucs bs (if badge_loop user_cat bs then partial + 1 else partial)"

definition partial_matches :: "py_str \<Rightarrow> user_preferences \<Rightarrow> card \<Rightarrow> int" where
  "partial_matches py p c = category_loop (user_categories py p) (card_badges py c) 0"

definition category_points :: "py_str \<Rightarrow> user_preferences \<Rightarrow> card \<Rightarrow> int" where
  "category_points py p c =
     exact_matches py p c * 15 + (partial_matches py p c - exact_matches py p c) * 8"

text \<open>
  The loop over the fee descriptors, carrying \<^verbatim>\<open>joining_fee_low\<close> and
  \<^verbatim>\<open>annual_fee_low\<close>.
\<close>

definition joining_waiver :: "string \<Rightarrow> bool" where
  "joining_waiver fd =
     (sublist ''nil'' fd \<or> sublist ''waived'' fd \<or>
      sublist ''0'' fd \<or> sublist ''free'' fd)"

definition annual_waiver :: "string \<Rightarrow> bool" where
  "annual_waiver fd =
     (sublist ''nil'' fd \<or> sublist ''waived'' fd \<or>
      sublist ''0'' fd \<or> sublist ''free'' fd \<or>
      sublist ''lifetime'' fd)"

fun fee_loop :: "py_str \<Rightarrow> fee list \<Rightarrow> bool \<Rightarrow> bool \<Rightarrow> bool \<times> bool" where
  "fee_loop py [] joining_fee_low annual_fee_low = (joining_fee_low, annual_fee_low)"
| "fee_loop py (FeeOther t # fees) joining_fee_low annual_fee_low =
     fee_loop py fees joining_fee_low annual_fee_low"
| "fee_loop py (FeeDict ty details t # fees) joining_fee_low annual_fee_low =
     (if ty = Some ''joining_fee'' then
        fee_loop py fees (joining_waiver (lower py (join '' '' details)) \<or> joining_fee_low)
          annual_fee_low
      else if ty = Some ''annual_fee'' then
        fee_loop py fees joining_fee_low
          (annual_waiver (lower py (join '' '' details)) \<or> annual_fee_low)
      else fee_loop py fees joining_fee_low annual_fee_low)"

definition fee_points :: "py_str \<Rightarrow> user_preferences \<Rightarrow> card \<Rightarrow> int" where
  "fee_points py p c =
     (if ''low fees'' \<in> set (preferences p) \<or> ''no annual fee'' \<in> set (preferences p) then
        (case fee_loop py (unwrap (fee_breakdown c)) False False of
           (joining_fee_low, annual_fee_low) \<Rightarrow>
             if joining_fee_low \<and> annual_fee_low then 20
             else if annual_fee_low then 15
             else if joining_fee_low then 10
             else 0)
      else 0)"

text \<open>
  \<^verbatim>\<open>any(k1 in str(reward).lower() or k2 in ... for reward in rewards)\<close>, for the
  keywords of one preference.
\<close>

definition any_reward :: "py_str \<Rightarrow> string list \<Rightarrow> card \<Rightarrow> bool" where
  "any_reward py keywords c =
     list_ex (\<lambda>r. list_ex (\<lambda>k. sublist k (lower py (reward_str r))) keywords)
       (unwrap (rewards c))"

definition any_fee :: "py_str \<Rightarrow> string \<Rightarrow> card \<Rightarrow> bool" where
  "any_fee py keyword c =
     list_ex (\<lambda>f. sublist keyword (lower py (fee_str f))) (unwrap (fee_breakdown c))"

text \<open>One preference rule: the preference is wanted and the card has the benefit.\<close>

definition rule_points :: "user_preferences \<Rightarrow> string \<Rightarrow> bool \<Rightarrow> int \<Rightarrow> int" where
  "rule_points p pref has_benefit pts =
     (if pref \<in> set (preferences p) \<and> has_benefit then pts else 0)"

definition bank_points :: "py_str \<Rightarrow> user_preferences \<Rightarrow> card \<Rightarrow> int" where
  "bank_points py p c =
     (if truthy_str (preferred_bank p) \<and>
         sublist (upper py (get_str (preferred_bank p))) (upper py (get_str (Institution c)))
      then 25 else 0)"

definition income_points :: "py_str \<Rightarrow> user_preferences \<Rightarrow> card \<Rightarrow> int" where
  "income_points py p c =
     (if 1000000 \<le> user_income p then
        (if ''premium'' \<in> set (card_badges py c) \<or> sublist ''signature'' (lower py (get_str (name c)))
         then 10 else 0)
      else if 500000 \<le> user_income p then
        (if list_ex (\<lambda>b. b \<in> set (card_badges py c)) [''lifestyle'', ''rewards'', ''travel'']
         then 5 else 0)
      else 0)"

text \<open>The score of one card: the additions of the loop body, in the order of the source.\<close>

definition score_card :: "py_str \<Rightarrow> user_preferences \<Rightarrow> card \<Rightarrow> int" where
  "score_card py p c =
     category_points py p c
     + fee_points py p c
     + rule_points p ''lounge access'' (any_reward py [''lounge''] c) 18
     + rule_points p ''fuel surcharge waiver''
         (any_reward py [''fuel''] c \<or> any_fee py ''fuel'' c) 15
     + rule_points p ''cashback'' (any_reward py [''cashback''] c) 18
     + rule_points p ''travel rewards''
         (any_reward py [''travel'', ''miles'', ''points'', ''air''] c) 16
     + rule_points p ''movie benefits'' (any_reward py [''movie'', ''pvr''] c) 12
     + rule_points p ''dining discounts'' (any_reward py [''dining'', ''restaurant''] c) 12
     + rule_points p ''railway benefits'' (any_reward py [''railway'', ''irctc''] c) 12
     + rule_points p ''welcome benefits'' (any_reward py [''welcome''] c) 8
     + rule_points p ''milestone rewards'' (any_reward py [''milestone''] c) 10
     + rule_points p ''insurance coverage'' (any_reward py [''insurance'', ''cover''] c) 8
     + bank_points py p c
     + income_points py p c"

text \<open>
  \<^verbatim>\<open>scored_cards.sort(key=lambda x: x[1], reverse=True)\<close>: Python's sort is stable, and
  with \<^verbatim>\<open>reverse=True\<close> elements of equal key keep their original order. That is the
  stable insertion sort \<^const>\<open>sort_key\<close> on the negated score.
\<close>

definition score_cards :: "py_str \<Rightarrow> user_preferences \<Rightarrow> card list \<Rightarrow> card list" where
  "score_cards py p eligible_cards =
     map fst (sort_key (\<lambda>(c, score). - score)
                (map (\<lambda>c. (c, score_card py p c)) eligible_cards))"

section \<open>Catalog loader\<close>

text \<open>
  The module configures logging with \<^verbatim>\<open>logging.basicConfig(level=logging.ERROR)\<close>; a
  record below that level is not emitted. What \<^verbatim>\<open>_load_cards\<close> writes to the log is
  part of its result here.
\<close>

datatype log_level = DEBUG | INFO | WARNING | ERROR | CRITICAL

fun level_no :: "log_level \<Rightarrow> nat" where
  "level_no DEBUG = 10"
| "level_no INFO = 20"
| "level_no WARNING = 30"
| "level_no ERROR = 40"
| "level_no CRITICAL = 50"

definition configured_level :: log_level where
  "configured_level = ERROR"

text \<open>
  The two messages of the loader: the numbers of valid and of all cards, and the
  failure to read the file.
\<close>

datatype log_message = Loaded_valid_from_total nat nat | Error_loading_cards

definition emit :: "log_level \<Rightarrow> log_message \<Rightarrow> (log_level \<times> log_message) list" where
  "emit lvl msg = (if level_no configured_level \<le> level_no lvl then [(lvl, msg)] else [])"

definition valid_card :: "card \<Rightarrow> bool" where
  "valid_card c =
     (truthy_str (name c) \<and> truthy_str (Institution c) \<and>
      Institution c \<noteq> Some ''None'' \<and> Institution c \<noteq> None)"

fun validate_loop :: "card list \<Rightarrow> card list" where
  "validate_loop [] = []"
| "validate_loop (c # cs) =
     (if valid_card c then c # validate_loop cs else validate_loop cs)"

text \<open>
  The argument is what \<^verbatim>\<open>json.load\<close> gives for the file, \<open>None\<close> when opening or
  parsing it raises. The result is the returned list and the emitted log records.
\<close>

definition load_cards :: "card list option \<Rightarrow> card list \<times> (log_level \<times> log_message) list" where
  "load_cards file =
     (case file of
        None \<Rightarrow> ([], emit ERROR Error_loading_cards)
      | Some cards \<Rightarrow>
          (let valid_cards = validate_loop cards
           in (valid_cards,
               emit INFO (Loaded_valid_from_total (length valid_cards) (length cards)))))"

section \<open>Text of the language-model replies\<close>

text \<open>
  \<^verbatim>\<open>s.split(sep)\<close> for a non-empty separator: the pieces between the occurrences of
  \<open>sep\<close>, found from the left. The program splits on two fixed separators only.
\<close>

fun split_loop :: "string \<Rightarrow> string \<Rightarrow> string \<Rightarrow> string list" where
  "split_loop sep piece [] = [rev piece]"
| "split_loop sep piece (c # cs) =
     (if prefix sep (c # cs) then rev piece # split_loop sep [] (drop (length sep - 1) cs)
      else split_loop sep (c # piece) cs)"

definition split :: "string \<Rightarrow> string \<Rightarrow> string list" where
  "split sep s = split_loop sep [] s"

text \<open>\<^verbatim>\<open>s.replace(old, '')\<close> for a non-empty \<open>old\<close>\<close>

fun remove_all :: "string \<Rightarrow> string \<Rightarrow> string" where
  "remove_all old [] = []"
| "remove_all old (c # cs) =
     (if prefix old (c # cs) then remove_all old (drop (length old - 1) cs)
      else c # remove_all old cs)"

definition newline :: string where
  "newline = [CHR 0x0A]"

text \<open>
  The loop over the lines of a reply that keeps the text after a tag: every line
  that starts with the tag overwrites the name, so the last one stays.
\<close>

fun tag_loop ::
  "py_str \<Rightarrow> string \<Rightarrow> string list \<Rightarrow> string option \<Rightarrow> string option" where
  "tag_loop py tag [] nm = nm"
| "tag_loop py tag (line # lines) nm =
     tag_loop py tag lines (if prefix tag line then Some (strip py (remove_all tag line)) else nm)"

section \<open>Recommendation session\<close>

record session_state =
  recommended_cards :: "card list"
  current_card :: "card option"
  excluded_institutions :: "string option list"
  llm_calls_count :: int

text \<open>
  The fields of the chatbot object the session reads and writes. The language model
  is a collaborator: each operation that calls it takes the outcome of the call,
  an exception or the reply text, as an argument.
\<close>

record chatbot =
  cards :: "card list"
  user_prefs :: user_preferences
  session :: session_state

datatype llm_result = Raises | Returns string

definition count_llm_call :: "chatbot \<Rightarrow> chatbot" where
  "count_llm_call self =
     self\<lparr>session := (session self)\<lparr>llm_calls_count := llm_calls_count (session self) + 1\<rparr>\<rparr>"

text \<open>
  \<^verbatim>\<open>conversational_recommendation\<close>: the card the reply names, or the first card when
  the call raises or no card matches.
\<close>

definition conversational_recommendation ::
  "py_str \<Rightarrow> llm_result \<Rightarrow> card list \<Rightarrow> chatbot \<Rightarrow> chatbot \<times> card option" where
  "conversational_recommendation py llm top_cards self =
     (case top_cards of
        [] \<Rightarrow> (self, None)
      | first # _ \<Rightarrow>
          (case llm of
             Raises \<Rightarrow> (count_llm_call self, Some first)
           | Returns response \<Rightarrow>
               (let recommended_name = tag_loop py ''RECOMMENDED_CARD:'' (split newline response) None;
                    recommended_card =
                      (if truthy_str recommended_name
                       then find (\<lambda>crd. sublist (lower py (get_str recommended_name))
                                           (lower py (get_str (name crd)))) top_cards
                       else None)
                in (count_llm_call self,
                    Some (case recommended_card of None \<Rightarrow> first | Some found_card \<Rightarrow> found_card)))))"

text \<open>
  The first two steps of \<^verbatim>\<open>recommend\<close>: the eligible cards, replaced by
  \<^verbatim>\<open>self.cards[:20]\<close> when there are none.
\<close>

definition recommend_eligible :: "py_str \<Rightarrow> chatbot \<Rightarrow> card list" where
  "recommend_eligible py self =
     (let eligible_cards =
            filter_cards_by_eligibility py (cards self) (user_prefs self)
              (excluded_institutions (session self))
      in if eligible_cards = [] then take 20 (cards self) else eligible_cards)"

definition recommend_ranked :: "py_str \<Rightarrow> chatbot \<Rightarrow> card list" where
  "recommend_ranked py self =
     (let eligible_cards = recommend_eligible py self;
          ranked_cards = score_cards py (user_prefs self) eligible_cards
      in if ranked_cards = [] then take 5 eligible_cards else ranked_cards)"

definition recommend :: "py_str \<Rightarrow> llm_result \<Rightarrow> chatbot \<Rightarrow> chatbot \<times> card option" where
  "recommend py llm self =
     (let ranked_cards = recommend_ranked py self
      in case conversational_recommendation py llm ranked_cards self of
           (self1, None) \<Rightarrow> (self1, None)
         | (self1, Some recommended_card) \<Rightarrow>
             (self1\<lparr>session := (session self1)
                     \<lparr>current_card := Some recommended_card,
                      recommended_cards := take 5 ranked_cards\<rparr>\<rparr>,
              Some recommended_card))"

text \<open>
  The search of \<^verbatim>\<open>suggest_alternative\<close> for the named alternative. It reads
  \<^verbatim>\<open>alt['name'].lower()\<close>, which raises when the card has no name.
\<close>

fun find_alternative :: "py_str \<Rightarrow> string \<Rightarrow> card list \<Rightarrow> unit + card option" where
  "find_alternative py alternative_name [] = Inr None"
| "find_alternative py alternative_name (alt # alts) =
     (case name alt of
        None \<Rightarrow> Inl ()
      | Some nm \<Rightarrow>
          if sublist (lower py alternative_name) (lower py nm) then Inr (Some alt)
          else find_alternative py alternative_name alts)"

text \<open>
  \<^verbatim>\<open>suggest_alternative\<close>. An exception inside the \<^verbatim>\<open>try\<close> block leads to the handler,
  which takes the first alternative and does not touch the excluded institutions.
\<close>

definition suggest_alternative ::
  "py_str \<Rightarrow> llm_result \<Rightarrow> chatbot \<Rightarrow> chatbot \<times> card option" where
  "suggest_alternative py llm self =
     (let self1 = count_llm_call self;
          st = session self1;
          alternatives =
            filter (\<lambda>crd. Some crd \<noteq> current_card st \<and>
                            Institution crd \<notin> set (excluded_institutions st))
              (recommended_cards st)
      in case alternatives of
           [] \<Rightarrow> (self1, None)
         | first # _ \<Rightarrow>
             (let handler = (self1\<lparr>session := st\<lparr>current_card := Some first\<rparr>\<rparr>, Some first)
              in case llm of
                   Raises \<Rightarrow> handler
                 | Returns response \<Rightarrow>
                     (let alternative_name =
                            tag_loop py ''ALTERNATIVE CARD:'' (split newline response) None
                      in case (if truthy_str alternative_name
                               then find_alternative py (get_str alternative_name) alternatives
                               else Inr None) of
                           Inl _ \<Rightarrow> handler
                         | Inr found \<Rightarrow>
                             (let selected_card =
                                    (case found of None \<Rightarrow> first | Some found_card \<Rightarrow> found_card)
                              in (self1\<lparr>session := st
                                         \<lparr>current_card := Some selected_card,
                                          excluded_institutions :=
                                            excluded_institutions st @
                                              [Institution selected_card]\<rparr>\<rparr>,
                                  Some selected_card)))))"

text \<open>\<^verbatim>\<open>_switch_to_alternative\<close>\<close>

definition switch_to_alternative :: "py_str \<Rightarrow> string \<Rightarrow> chatbot \<Rightarrow> card option" where
  "switch_to_alternative py alt_name self =
     find (\<lambda>crd. sublist (lower py alt_name) (lower py (get_str (name crd))))
       (recommended_cards (session self))"

text \<open>
  \<^verbatim>\<open>_llm_conversational_handler\<close>, as far as the session state goes: the reply text it
  returns is left out.
\<close>

definition llm_conversational_handler :: "py_str \<Rightarrow> llm_result \<Rightarrow> chatbot \<Rightarrow> chatbot" where
  "llm_conversational_handler py llm self =
     (let self1 = count_llm_call self
      in case llm of
           Raises \<Rightarrow> self1
         | Returns response \<Rightarrow>
             if sublist ''SWITCH_TO:'' response then
               (case split ''SWITCH_TO:'' response of
                  _ # after # _ \<Rightarrow>
                    (case split newline after of
                       first_line # _ \<Rightarrow>
                         (case switch_to_alternative py (strip py first_line) self1 of
                            Some new_card \<Rightarrow>
                              self1\<lparr>session := (session self1)\<lparr>current_card := Some new_card\<rparr>\<rparr>
                          | None \<Rightarrow> self1)
                     | [] \<Rightarrow> self1)
                | _ \<Rightarrow> self1)
             else self1)"

text \<open>
  The chatbot once \<^verbatim>\<open>__init__\<close> has loaded the cards and set up the session state and
  \<^verbatim>\<open>collect_user_preferences\<close> has filled in the preferences.
\<close>

definition init :: "card list option \<Rightarrow> user_preferences \<Rightarrow> chatbot" where
  "init file p =
     \<lparr>cards = fst (load_cards file), user_prefs = p,
      session = \<lparr>recommended_cards = [], current_card = None,
                 excluded_institutions = [], llm_calls_count = 0\<rparr>\<rparr>"

section \<open>The claims in the words of the specification\<close>


text \<open>
  Income eligibility as the specification words it: a minimum is specified when the
  key is present.
\<close>

definition income_eligible_spec :: "user_preferences \<Rightarrow> card \<Rightarrow> bool" where
  "income_eligible_spec p c =
     (let req = eligibility_income_min c in
      case (if employment p = Some ''salaried'' \<and> salaried req \<noteq> None then salaried req
            else if employment p = Some ''self-employed'' \<and> self_employed req \<noteq> None
              then self_employed req
            else Any req) of
        None \<Rightarrow> True
      | Some m \<Rightarrow> m \<le> user_income p)"


section \<open>Example data\<close>



definition no_income_req :: income_req where
  "no_income_req = \<lparr>salaried = None, self_employed = None, Any = None\<rparr>"

text \<open>A card with a name, an institution, badges and income minimums, and nothing else.\<close>

definition plain_card :: "string \<Rightarrow> string \<Rightarrow> string list \<Rightarrow> income_req \<Rightarrow> card" where
  "plain_card nm inst badges req =
     \<lparr>name = Some nm, Institution = Some inst, badge = badges,
      eligibility_income_min = req, minimum_credit_score = None,
      is_bank_customer_only = False, rewards = AsList [], fee_breakdown = AsList [],
      interest_rate = None, links = []\<rparr>"

definition plain_prefs ::
  "string option \<Rightarrow> int \<Rightarrow> string list \<Rightarrow> string list \<Rightarrow> user_preferences" where
  "plain_prefs emp inc cats prefs =
     \<lparr>employment = emp, income = Some inc, categories = cats, preferences = prefs,
      preferred_bank = None, credit_score = None\<rparr>"



text \<open>The category example: badges \<^verbatim>\<open>["Travel","Fuel"]\<close>, categories \<^verbatim>\<open>["Travel","Shopping"]\<close>.\<close>

definition category_example_prefs :: user_preferences where
  "category_example_prefs =
     plain_prefs (Some ''salaried'') 300000 [''Travel'', ''Shopping''] [''cashback'']"

definition category_example_card :: card where
  "category_example_card =
     plain_card ''Example Card'' ''Example Bank'' [''Travel'', ''Fuel''] no_income_req"





text \<open>Income examples: a card with all three minimums, and one with a zero minimum.\<close>

definition three_minimums_card :: card where
  "three_minimums_card =
     plain_card ''Tiered Card'' ''Example Bank'' []
       \<lparr>salaried = Some 300000, self_employed = Some 400000, Any = Some 500000\<rparr>"

definition zero_minimum_card :: card where
  "zero_minimum_card =
     plain_card ''Zero Card'' ''Example Bank'' []
       \<lparr>salaried = Some 0, self_employed = None, Any = Some 500000\<rparr>"

definition income_prefs :: "string option \<Rightarrow> int \<Rightarrow> user_preferences" where
  "income_prefs emp inc = plain_prefs emp inc [''Travel''] [''cashback'']"

text \<open>Bank examples: a card for the bank's own customers.\<close>

definition customers_only_card :: card where
  "customers_only_card =
     (plain_card ''Customer Card'' ''HDFC Bank'' [] no_income_req)
       \<lparr>is_bank_customer_only := True\<rparr>"

definition bank_prefs :: "string option \<Rightarrow> user_preferences" where
  "bank_prefs b = (income_prefs (Some ''salaried'') 300000)\<lparr>preferred_bank := b\<rparr>"

text \<open>A catalog of three cards, two of them of the same institution.\<close>

definition alpha_card :: card where
  "alpha_card = plain_card ''Alpha Card'' ''X Bank'' [''Travel''] no_income_req"

definition beta_card :: card where
  "beta_card = plain_card ''Beta Card'' ''Y Bank'' [] no_income_req"

definition gamma_card :: card where
  "gamma_card = plain_card ''Gamma Card'' ''Y Bank'' [] no_income_req"


text \<open>
  Two sessions over the same one-card catalog whose users differ in employment only:
  the card has a minimum for salaried users and none for the others.
\<close>

definition salaried_only_card :: card where
  "salaried_only_card =
     plain_card ''Salary Card'' ''Example Bank'' []
       \<lparr>salaried = Some 500000, self_employed = None, Any = None\<rparr>"

definition widened_session :: chatbot where
  "widened_session = init (Some [salaried_only_card]) (income_prefs (Some ''salaried'') 100000)"

definition direct_session :: chatbot where
  "direct_session =
     init (Some [salaried_only_card]) (income_prefs (Some ''self-employed'') 100000)"

text \<open>
  A session that recommends, suggests an alternative and then switches on the
  model's command.
\<close>

definition session_start :: chatbot where
  "session_start =
     init (Some [alpha_card, beta_card, gamma_card])
       (income_prefs (Some ''salaried'') 300000)"

definition after_recommend :: chatbot where
  "after_recommend = fst (recommend ascii Raises session_start)"

definition after_suggest :: chatbot where
  "after_suggest =
     fst (suggest_alternative ascii
            (Returns (''ALTERNATIVE CARD: Beta Card'' @ newline @
                      ''WHY THIS IS BETTER: lower fees'')) after_recommend)"

definition after_switch :: chatbot where
  "after_switch =
     llm_conversational_handler ascii (Returns ''You may prefer it. SWITCH_TO: Gamma Card'')
       after_suggest"

text \<open>A session over a catalog of 21 cards, none of which the user is eligible for.\<close>

definition crowded_session :: chatbot where
  "crowded_session =
     init (Some (replicate 21 salaried_only_card)) (income_prefs (Some ''salaried'') 100000)"

section \<open>Helper lemmas\<close>

lemma filter_cards_by_eligibility_filter:
  "filter_cards_by_eligibility py cs p excluded =
     filter (\<lambda>c. Institution c \<notin> set excluded \<and> income_eligible p c \<and>
                 credit_eligible p c \<and> bank_eligible py p c) cs"
  by (induction cs) simp_all


lemma insort_key_map:
  "insort_key g (h x) (map h ys) = map h (insort_key (\<lambda>y. g (h y)) x ys)"
  by (induction ys) simp_all

lemma sort_key_map: "sort_key g (map h xs) = map h (sort_key (\<lambda>y. g (h y)) xs)"
  by (induction xs) (simp_all add: insort_key_map)

lemma score_cards_sort_key:
  "score_cards py p xs = sort_key (\<lambda>c. - score_card py p c) xs"
  by (simp add: score_cards_def sort_key_map o_def)

lemma badge_loop_iff:
  "badge_loop uc bs = (\<exists>b\<in>set bs. sublist uc b \<or> sublist b uc)"
  by (induction bs) auto

lemma category_loop_count:
  "category_loop ucs bs n = n + int (length (filter (\<lambda>uc. badge_loop uc bs) ucs))"
  by (induction ucs arbitrary: n) simp_all

lemma exact_is_partial: "uc \<in> set bs \<Longrightarrow> badge_loop uc bs"
  by (auto simp: badge_loop_iff)

lemma length_filter_split:
  "(\<And>x. P x \<Longrightarrow> Q x) \<Longrightarrow>
   length (filter Q xs) = length (filter P xs) + length (filter (\<lambda>x. \<not> P x \<and> Q x) xs)"
  by (induction xs) auto

lemma partial_matches_split:
  "partial_matches py p c = exact_matches py p c +
     int (length (filter (\<lambda>cat. cat \<notin> set (card_badges py c) \<and> badge_loop cat (card_badges py c))
            (user_categories py p)))"
  unfolding partial_matches_def exact_matches_def category_loop_count
  using length_filter_split[of "\<lambda>cat. cat \<in> set (card_badges py c)"
          "\<lambda>uc. badge_loop uc (card_badges py c)" "user_categories py p"]
  by (simp add: exact_is_partial)



lemma rule_points_nonneg: "0 \<le> pts \<Longrightarrow> 0 \<le> rule_points p pref b pts"
  by (simp add: rule_points_def)

lemma score_card_nonneg: "0 \<le> score_card py p c"
proof -
  have "0 \<le> category_points py p c"
    by (simp add: category_points_def partial_matches_split exact_matches_def)
  moreover have "0 \<le> fee_points py p c"
    by (simp add: fee_points_def split: prod.splits)
  moreover have "0 \<le> bank_points py p c" by (simp add: bank_points_def)
  moreover have "0 \<le> income_points py p c" by (simp add: income_points_def)
  ultimately show ?thesis
    unfolding score_card_def
    by (intro add_nonneg_nonneg rule_points_nonneg) simp_all
qed

lemma set_score_cards: "set (score_cards py p cs) = set cs"
  by (simp add: score_cards_sort_key)

lemma filter_excludes:
  "c \<in> set (filter_cards_by_eligibility py cs p excluded) \<Longrightarrow> Institution c \<notin> set excluded"
  by (simp add: filter_cards_by_eligibility_filter)

lemma find_alternative_mem:
  "find_alternative py n alts = Inr (Some c) \<Longrightarrow> c \<in> set alts"
  by (induction alts) (auto split: option.splits if_splits)

text \<open>
  The card \<^verbatim>\<open>suggest_alternative\<close> makes current is one of the recommended cards and its
  institution is not excluded when it is chosen.
\<close>

lemma suggest_alternative_checks_exclusions:
  assumes "suggest_alternative py llm self = (self', Some c)"
  shows "c \<in> set (recommended_cards (session self)) \<and>
         Institution c \<notin> set (excluded_institutions (session self)) \<and>
         current_card (session self') = Some c"
proof -
  define alts where "alts =
     filter (\<lambda>crd. Some crd \<noteq> current_card (session self) \<and>
                     Institution crd \<notin> set (excluded_institutions (session self)))
       (recommended_cards (session self))"
  have "c \<in> set alts \<and> current_card (session self') = Some c"
    using assms
    by (auto simp: suggest_alternative_def count_llm_call_def Let_def alts_def [symmetric]
             split: list.splits llm_result.splits sum.splits option.splits if_splits
             dest: find_alternative_mem)
  then show ?thesis by (auto simp: alts_def)
qed

section \<open>Claims about the preference scorer\<close>






text \<open>
  C10. Every user category that is an exact badge match is also counted by the
  partial-match loop, so the partial count is at least the exact count, the term
  (partial - exact) * 8 is not negative, and the score of every card is a non-negative
  integer.
\<close>

theorem partial_covers_exact:
  "(\<forall>cat\<in>set (user_categories py p).
      cat \<in> set (card_badges py c) \<longrightarrow> badge_loop cat (card_badges py c)) \<and>
   exact_matches py p c \<le> partial_matches py p c \<and>
   0 \<le> (partial_matches py p c - exact_matches py p c) * 8 \<and>
   0 \<le> score_card py p c"
  by (simp add: exact_is_partial partial_matches_split score_card_nonneg)

text \<open>The category Travel of the example is counted by both.\<close>

theorem partial_covers_exact_witness:
  "''travel'' \<in> set (user_categories ascii category_example_prefs) \<and>
   ''travel'' \<in> set (card_badges ascii category_example_card) \<and>
   badge_loop ''travel'' (card_badges ascii category_example_card) \<and>
   exact_matches ascii category_example_prefs category_example_card = 1 \<and>
   partial_matches ascii category_example_prefs category_example_card = 1 \<and>
   0 \<le> score_card ascii category_example_prefs category_example_card"
proof -
  have u: "''travel'' \<in> set (user_categories ascii category_example_prefs)" by code_simp
  have b: "''travel'' \<in> set (card_badges ascii category_example_card)" by code_simp
  have e: "exact_matches ascii category_example_prefs category_example_card = 1" by code_simp
  have q: "partial_matches ascii category_example_prefs category_example_card = 1" by code_simp
  show ?thesis
    using partial_covers_exact
            [where py = ascii and p = category_example_prefs and c = category_example_card]
          u b e q
    by blast
qed

text \<open>
  C5. The preference scorer returns the cards it was given, each as often as it was
  given, in descending order of score, and the sort is stable: for every score, the
  cards of that score come in the order they had in the input.
\<close>

theorem score_cards_stable_sort:
  "mset (score_cards py p cs) = mset cs \<and>
   sorted_wrt (\<lambda>a b. score_card py p b \<le> score_card py p a) (score_cards py p cs) \<and>
   (\<forall>k. filter (\<lambda>c. score_card py p c = k) (score_cards py p cs) =
        filter (\<lambda>c. score_card py p c = k) cs)"
proof -
  have "sorted (map (\<lambda>c. - score_card py p c) (score_cards py p cs))"
    unfolding score_cards_sort_key by (rule sorted_sort_key)
  then have desc: "sorted_wrt (\<lambda>a b. score_card py p b \<le> score_card py p a) (score_cards py p cs)"
    by (simp add: sorted_map)
  have stable: "filter (\<lambda>c. score_card py p c = k) (score_cards py p cs) =
        filter (\<lambda>c. score_card py p c = k) cs" for k
    using sort_key_stable [of "\<lambda>c. - score_card py p c" "- k" cs]
    by (simp add: score_cards_sort_key)
  show ?thesis using desc stable by (simp add: score_cards_sort_key)
qed

text \<open>
  Three cards, the first and the last with the same score: the higher one moves to the
  front and the other two keep their order.
\<close>

theorem score_cards_stable_sort_witness:
  "score_cards ascii (income_prefs (Some ''salaried'') 300000) [gamma_card, alpha_card, beta_card] =
     [alpha_card, gamma_card, beta_card] \<and>
   score_card ascii (income_prefs (Some ''salaried'') 300000) gamma_card =
     score_card ascii (income_prefs (Some ''salaried'') 300000) beta_card \<and>
   filter (\<lambda>c. score_card ascii (income_prefs (Some ''salaried'') 300000) c = 0)
     (score_cards ascii (income_prefs (Some ''salaried'') 300000) [gamma_card, alpha_card, beta_card]) =
     [gamma_card, beta_card]"
proof -
  have ranked: "score_cards ascii (income_prefs (Some ''salaried'') 300000)
                  [gamma_card, alpha_card, beta_card] = [alpha_card, gamma_card, beta_card]"
    by code_simp
  have tie: "score_card ascii (income_prefs (Some ''salaried'') 300000) gamma_card =
     score_card ascii (income_prefs (Some ''salaried'') 300000) beta_card" by code_simp
  have given: "filter (\<lambda>c. score_card ascii (income_prefs (Some ''salaried'') 300000) c = 0)
     [gamma_card, alpha_card, beta_card] = [gamma_card, beta_card]" by code_simp
  show ?thesis
    using score_cards_stable_sort
            [where py = ascii and p = "income_prefs (Some ''salaried'') 300000"
               and cs = "[gamma_card, alpha_card, beta_card]"]
          ranked tie given
    by metis
qed

section \<open>Claims about the eligibility filter\<close>

text \<open>
  C3, as amended. A minimum counts as specified when it is present and not 0.
  If the user is salaried and the card specifies a salaried minimum, the card is
  income-eligible iff the income is at least that minimum; else if the user is
  self-employed and the card specifies a self-employed minimum, iff the income is at
  least that minimum; else if the card specifies an \<open>Any\<close> minimum, iff the income is at
  least that minimum; else the card is income-eligible. The employment-specific
  minimum takes precedence, an income equal to the minimum is eligible, and every card
  the filter returns is income-eligible.
\<close>

theorem income_threshold_precedence:
  "(employment p = Some ''salaried'' \<and> salaried (eligibility_income_min c) = Some m \<and> m \<noteq> 0 \<longrightarrow>
      income_eligible p c = (m \<le> user_income p)) \<and>
   (employment p = Some ''self-employed'' \<and>
    self_employed (eligibility_income_min c) = Some m \<and> m \<noteq> 0 \<longrightarrow>
      income_eligible p c = (m \<le> user_income p)) \<and>
   (\<not> (employment p = Some ''salaried'' \<and> truthy_int (salaried (eligibility_income_min c))) \<and>
    \<not> (employment p = Some ''self-employed'' \<and>
        truthy_int (self_employed (eligibility_income_min c))) \<and>
    Any (eligibility_income_min c) = Some m \<and> m \<noteq> 0 \<longrightarrow>
      income_eligible p c = (m \<le> user_income p)) \<and>
   (\<not> (employment p = Some ''salaried'' \<and> truthy_int (salaried (eligibility_income_min c))) \<and>
    \<not> (employment p = Some ''self-employed'' \<and>
        truthy_int (self_employed (eligibility_income_min c))) \<and>
    \<not> truthy_int (Any (eligibility_income_min c)) \<longrightarrow>
      income_eligible p c) \<and>
   (c \<in> set (filter_cards_by_eligibility py cs p excluded) \<longrightarrow> income_eligible p c)"
  by (auto simp: income_eligible_def truthy_int_def filter_cards_by_eligibility_filter Let_def)

text \<open>
  Each branch at a card with the minimums 300000, 400000 and 500000, at and just below
  the applicable one, and the last branch at a card without minimums.
\<close>

theorem income_threshold_precedence_witness:
  "income_eligible (income_prefs (Some ''salaried'') 300000) three_minimums_card \<and>
   \<not> income_eligible (income_prefs (Some ''salaried'') 299999) three_minimums_card \<and>
   income_eligible (income_prefs (Some ''self-employed'') 400000) three_minimums_card \<and>
   \<not> income_eligible (income_prefs (Some ''self-employed'') 399999) three_minimums_card \<and>
   income_eligible (income_prefs None 500000) three_minimums_card \<and>
   \<not> income_eligible (income_prefs None 499999) three_minimums_card \<and>
   income_eligible (income_prefs (Some ''salaried'') 0) alpha_card \<and>
   three_minimums_card \<in> set (filter_cards_by_eligibility ascii [three_minimums_card]
                                (income_prefs (Some ''salaried'') 300000) [])"
proof -
  have req: "salaried (eligibility_income_min three_minimums_card) = Some 300000"
    "self_employed (eligibility_income_min three_minimums_card) = Some 400000"
    "Any (eligibility_income_min three_minimums_card) = Some 500000"
    "\<not> truthy_int (salaried (eligibility_income_min alpha_card))"
    "\<not> truthy_int (self_employed (eligibility_income_min alpha_card))"
    "\<not> truthy_int (Any (eligibility_income_min alpha_card))"
    by code_simp+
  have emp: "employment (income_prefs e i) = e" "user_income (income_prefs e i) = i" for e i
    by (simp_all add: income_prefs_def plain_prefs_def user_income_def)
  have mem: "three_minimums_card \<in> set (filter_cards_by_eligibility ascii [three_minimums_card]
                                (income_prefs (Some ''salaried'') 300000) [])"
    by code_simp
  show ?thesis
    using income_threshold_precedence
            [where py = ascii and p = "income_prefs (Some ''salaried'') 300000" and c = three_minimums_card and m = 300000]
          income_threshold_precedence
            [where py = ascii and p = "income_prefs (Some ''salaried'') 299999" and c = three_minimums_card and m = 300000]
          income_threshold_precedence
            [where py = ascii and p = "income_prefs (Some ''self-employed'') 400000" and c = three_minimums_card and m = 400000]
          income_threshold_precedence
            [where py = ascii and p = "income_prefs (Some ''self-employed'') 399999" and c = three_minimums_card and m = 400000]
          income_threshold_precedence
            [where py = ascii and p = "income_prefs None 500000" and c = three_minimums_card and m = 500000]
          income_threshold_precedence
            [where py = ascii and p = "income_prefs None 499999" and c = three_minimums_card and m = 500000]
          income_threshold_precedence
            [where py = ascii and p = "income_prefs (Some ''salaried'') 0" and c = alpha_card and m = 0]
          req mem
    by (simp add: emp)
qed

text \<open>
  C3 as the specification has it fails at a card whose salaried minimum is 0 and whose
  \<open>Any\<close> minimum is 500000: a salaried user with an income of 100000 meets the salaried
  minimum, and the filter drops the card, because it goes on to the \<open>Any\<close> minimum.
\<close>

theorem zero_minimum_counterexample:
  "employment (income_prefs (Some ''salaried'') 100000) = Some ''salaried'' \<and>
   salaried (eligibility_income_min zero_minimum_card) = Some 0 \<and>
   0 \<le> user_income (income_prefs (Some ''salaried'') 100000) \<and>
   income_eligible_spec (income_prefs (Some ''salaried'') 100000) zero_minimum_card \<and>
   \<not> income_eligible (income_prefs (Some ''salaried'') 100000) zero_minimum_card \<and>
   filter_cards_by_eligibility ascii [zero_minimum_card]
     (income_prefs (Some ''salaried'') 100000) [] = []"
  by code_simp

text \<open>
  C4. A card for the bank's own customers is in the filter's output only if the user's
  preferred bank is set and is, in upper case, a substring of the upper-cased
  institution name; when the preferred bank is not set the card is not in the output,
  whatever its other fields are. The gate depends on a preferred bank through its
  upper-cased form only.
\<close>

theorem bank_customer_only_gate:
  "(c \<in> set (filter_cards_by_eligibility py cs p excluded) \<and> is_bank_customer_only c \<longrightarrow>
      (\<exists>bank. preferred_bank p = Some bank \<and>
              sublist (upper py bank) (upper py (get_str (Institution c))))) \<and>
   (is_bank_customer_only c \<and> preferred_bank p = None \<longrightarrow>
      c \<notin> set (filter_cards_by_eligibility py cs p excluded)) \<and>
   (preferred_bank p = Some bank1 \<and> preferred_bank p' = Some bank2 \<and>
    bank1 \<noteq> [] \<and> bank2 \<noteq> [] \<and> upper py bank1 = upper py bank2 \<longrightarrow>
      bank_eligible py p c = bank_eligible py p' c)"
proof -
  have kept: "\<exists>bank. preferred_bank p = Some bank \<and>
              sublist (upper py bank) (upper py (get_str (Institution c)))"
    if "c \<in> set (filter_cards_by_eligibility py cs p excluded)" "is_bank_customer_only c"
    using that
    by (auto simp: filter_cards_by_eligibility_filter bank_eligible_def truthy_str_def
                   get_str_def split: option.splits if_splits)
  have dropped: "c \<notin> set (filter_cards_by_eligibility py cs p excluded)"
    if "is_bank_customer_only c" "preferred_bank p = None"
    using that
    by (simp add: filter_cards_by_eligibility_filter bank_eligible_def truthy_str_def)
  have folded: "bank_eligible py p c = bank_eligible py p' c"
    if "preferred_bank p = Some bank1" "preferred_bank p' = Some bank2"
       "bank1 \<noteq> []" "bank2 \<noteq> []" "upper py bank1 = upper py bank2"
    using that by (simp add: bank_eligible_def truthy_str_def get_str_def)
  show ?thesis using kept dropped folded by blast
qed

text \<open>
  A customers-only card of HDFC Bank: kept for the preferred bank hdfc and, as its
  upper-cased form is the same, for HdFc; dropped for no preferred bank and for
  another bank.
\<close>

theorem bank_customer_only_gate_witness:
  "is_bank_customer_only customers_only_card \<and>
   Institution customers_only_card = Some ''HDFC Bank'' \<and>
   customers_only_card \<in> set (filter_cards_by_eligibility ascii [customers_only_card]
                                (bank_prefs (Some ''hdfc'')) []) \<and>
   sublist (upper ascii ''hdfc'') (upper ascii (get_str (Institution customers_only_card))) \<and>
   upper ascii ''hdfc'' = upper ascii ''HdFc'' \<and>
   bank_eligible ascii (bank_prefs (Some ''hdfc'')) customers_only_card \<and>
   bank_eligible ascii (bank_prefs (Some ''HdFc'')) customers_only_card \<and>
   customers_only_card \<notin> set (filter_cards_by_eligibility ascii [customers_only_card]
                                (bank_prefs None) []) \<and>
   customers_only_card \<notin> set (filter_cards_by_eligibility ascii [customers_only_card]
                                (bank_prefs (Some ''icici'')) [])"
proof -
  have only: "is_bank_customer_only customers_only_card" by code_simp
  have inst: "Institution customers_only_card = Some ''HDFC Bank''" by code_simp
  have mem: "customers_only_card \<in> set (filter_cards_by_eligibility ascii [customers_only_card]
                                (bank_prefs (Some ''hdfc'')) [])" by code_simp
  have bank: "preferred_bank (bank_prefs b) = b" for b by (simp add: bank_prefs_def)
  have other: "customers_only_card \<notin> set (filter_cards_by_eligibility ascii [customers_only_card]
                                (bank_prefs (Some ''icici'')) [])" by code_simp
  have same: "upper ascii ''hdfc'' = upper ascii ''HdFc''" by code_simp
  have lower_case: "bank_eligible ascii (bank_prefs (Some ''hdfc'')) customers_only_card"
    by code_simp
  note gate = bank_customer_only_gate
      [where py = ascii and c = customers_only_card and cs = "[customers_only_card]"
         and excluded = "[]"]
  have sub: "sublist (upper ascii ''hdfc'')
               (upper ascii (get_str (Institution customers_only_card)))"
    using gate [where p = "bank_prefs (Some ''hdfc'')"] only mem by (simp add: bank)
  have none: "customers_only_card \<notin> set (filter_cards_by_eligibility ascii [customers_only_card]
                                (bank_prefs None) [])"
    using gate [where p = "bank_prefs None"] only by (simp add: bank)
  have "bank_eligible ascii (bank_prefs (Some ''hdfc'')) customers_only_card =
        bank_eligible ascii (bank_prefs (Some ''HdFc'')) customers_only_card"
    using gate [where p = "bank_prefs (Some ''hdfc'')" and p' = "bank_prefs (Some ''HdFc'')"
                  and ?bank1.0 = "''hdfc''" and ?bank2.0 = "''HdFc''"] same
    by (simp add: bank)
  then have mixed_case: "bank_eligible ascii (bank_prefs (Some ''HdFc'')) customers_only_card"
    using lower_case by simp
  show ?thesis
    by (intro conjI only inst mem sub same lower_case mixed_case none other)
qed

text \<open>
  C6. For every list of excluded institutions the filter's output holds no card of an
  excluded institution; and once the institution of the current card is appended to
  the list, the ranked list the filter and the scorer compute from the full catalog
  does not hold that card.
\<close>

theorem exclusion_never_violated:
  "(\<forall>c\<in>set (filter_cards_by_eligibility py cs p excluded). Institution c \<notin> set excluded) \<and>
   current \<notin> set (score_cards py p
                    (filter_cards_by_eligibility py cs p (excluded @ [Institution current])))"
  using filter_excludes [where py = py and cs = cs and p = p and excluded = excluded]
        filter_excludes [where py = py and c = current and cs = cs and p = p
                           and excluded = "excluded @ [Institution current]"]
  by (auto simp: set_score_cards)

text \<open>
  The three-card catalog: with Y Bank excluded only the card of X Bank is left, and
  after that card's institution is appended to an empty list it is gone from the
  ranking, which still holds the other two.
\<close>

theorem exclusion_never_violated_witness:
  "filter_cards_by_eligibility ascii [alpha_card, beta_card, gamma_card]
     (income_prefs (Some ''salaried'') 300000) [Some ''Y Bank''] = [alpha_card] \<and>
   Institution alpha_card \<notin> set [Some ''Y Bank''] \<and>
   score_cards ascii (income_prefs (Some ''salaried'') 300000)
     (filter_cards_by_eligibility ascii [alpha_card, beta_card, gamma_card]
        (income_prefs (Some ''salaried'') 300000) ([] @ [Institution alpha_card])) =
     [beta_card, gamma_card] \<and>
   alpha_card \<notin> set (score_cards ascii (income_prefs (Some ''salaried'') 300000)
     (filter_cards_by_eligibility ascii [alpha_card, beta_card, gamma_card]
        (income_prefs (Some ''salaried'') 300000) ([] @ [Institution alpha_card])))"
proof -
  have kept: "filter_cards_by_eligibility ascii [alpha_card, beta_card, gamma_card]
     (income_prefs (Some ''salaried'') 300000) [Some ''Y Bank''] = [alpha_card]"
    by code_simp
  have rerun: "score_cards ascii (income_prefs (Some ''salaried'') 300000)
     (filter_cards_by_eligibility ascii [alpha_card, beta_card, gamma_card]
        (income_prefs (Some ''salaried'') 300000) ([] @ [Institution alpha_card])) =
     [beta_card, gamma_card]"
    by code_simp
  have every: "\<forall>c\<in>set (filter_cards_by_eligibility ascii [alpha_card, beta_card, gamma_card]
                   (income_prefs (Some ''salaried'') 300000) [Some ''Y Bank'']).
          Institution c \<notin> set [Some ''Y Bank'']"
    by (rule exclusion_never_violated [THEN conjunct1])
  have mem: "alpha_card \<in> set (filter_cards_by_eligibility ascii [alpha_card, beta_card, gamma_card]
                   (income_prefs (Some ''salaried'') 300000) [Some ''Y Bank''])"
    unfolding kept by (rule list.set_intros(1))
  have inst: "Institution alpha_card \<notin> set [Some ''Y Bank'']"
    using every mem by (rule bspec)
  have gone: "alpha_card \<notin> set (score_cards ascii (income_prefs (Some ''salaried'') 300000)
     (filter_cards_by_eligibility ascii [alpha_card, beta_card, gamma_card]
        (income_prefs (Some ''salaried'') 300000) ([] @ [Institution alpha_card])))"
    by (rule exclusion_never_violated [THEN conjunct2])
  show ?thesis
    by (intro conjI kept inst rerun gone)
qed

section \<open>Claims about the loader and the session\<close>




text \<open>
  C8, as amended. Whenever the eligibility filter yields no card, the caller takes the
  first 20 catalog cards, unfiltered, as the shortlist (all of them when the catalog
  has fewer), and otherwise the filter's output. The list is all that is handed on:
  the ranking is computed from it alone, and nothing records that the fallback was
  used.
\<close>

theorem fallback_widening:
  "(filter_cards_by_eligibility py (cards self) (user_prefs self)
      (excluded_institutions (session self)) = [] \<longrightarrow>
      recommend_eligible py self = take 20 (cards self)) \<and>
   (filter_cards_by_eligibility py (cards self) (user_prefs self)
      (excluded_institutions (session self)) \<noteq> [] \<longrightarrow>
      recommend_eligible py self =
        filter_cards_by_eligibility py (cards self) (user_prefs self)
          (excluded_institutions (session self))) \<and>
   recommend_ranked py self =
     (if score_cards py (user_prefs self) (recommend_eligible py self) = []
      then take 5 (recommend_eligible py self)
      else score_cards py (user_prefs self) (recommend_eligible py self))"
  by (simp add: recommend_eligible_def recommend_ranked_def Let_def)

text \<open>
  A catalog of 21 cards with no eligible one gives the first 20; a catalog with an
  eligible card gives the filter's output.
\<close>

theorem fallback_widening_witness:
  "length (cards crowded_session) = 21 \<and>
   filter_cards_by_eligibility ascii (cards crowded_session) (user_prefs crowded_session)
     (excluded_institutions (session crowded_session)) = [] \<and>
   recommend_eligible ascii crowded_session = replicate 20 salaried_only_card \<and>
   filter_cards_by_eligibility ascii (cards direct_session) (user_prefs direct_session)
     (excluded_institutions (session direct_session)) = [salaried_only_card] \<and>
   recommend_eligible ascii direct_session = [salaried_only_card]"
proof -
  have n: "length (cards crowded_session) = 21" by code_simp
  have none: "filter_cards_by_eligibility ascii (cards crowded_session) (user_prefs crowded_session)
     (excluded_institutions (session crowded_session)) = []" by code_simp
  have first: "take 20 (cards crowded_session) = replicate 20 salaried_only_card"
    by code_simp
  have some: "filter_cards_by_eligibility ascii (cards direct_session) (user_prefs direct_session)
     (excluded_institutions (session direct_session)) = [salaried_only_card]" by code_simp
  have wide: "recommend_eligible ascii crowded_session = replicate 20 salaried_only_card"
    using fallback_widening [where py = ascii and self = crowded_session] none first by simp
  have direct: "recommend_eligible ascii direct_session = [salaried_only_card]"
    using fallback_widening [where py = ascii and self = direct_session] some by simp
  show ?thesis by (intro conjI n none wide some direct)
qed

text \<open>
  No flag tells the fallback: over the same catalog, a session whose filter is empty
  and one whose filter is not hand on the same shortlist and the same ranking, and end
  in the same session state with the same recommended card.
\<close>

theorem fallback_flag_counterexample:
  "filter_cards_by_eligibility ascii (cards widened_session) (user_prefs widened_session)
     (excluded_institutions (session widened_session)) = [] \<and>
   filter_cards_by_eligibility ascii (cards direct_session) (user_prefs direct_session)
     (excluded_institutions (session direct_session)) = [salaried_only_card] \<and>
   recommend_eligible ascii widened_session = recommend_eligible ascii direct_session \<and>
   recommend_ranked ascii widened_session = recommend_ranked ascii direct_session \<and>
   session (fst (recommend ascii Raises widened_session)) =
     session (fst (recommend ascii Raises direct_session)) \<and>
   snd (recommend ascii Raises widened_session) = snd (recommend ascii Raises direct_session)"
  by code_simp

text \<open>
  C9 at a concrete session. After the recommendation the current card is the first
  card; \<^verbatim>\<open>suggest_alternative\<close> makes the second card current and excludes its
  institution; the model's switch command then makes the third card current, whose
  institution is excluded at that moment.
\<close>

theorem switch_ignores_exclusions:
  "current_card (session after_recommend) = Some alpha_card \<and>
   recommended_cards (session after_recommend) = [alpha_card, beta_card, gamma_card] \<and>
   excluded_institutions (session after_recommend) = [] \<and>
   current_card (session after_suggest) = Some beta_card \<and>
   excluded_institutions (session after_suggest) = [Some ''Y Bank''] \<and>
   current_card (session after_switch) = Some gamma_card \<and>
   excluded_institutions (session after_switch) = [Some ''Y Bank''] \<and>
   Institution gamma_card \<in> set (excluded_institutions (session after_suggest))"
  by code_simp

end
